theory Spec2Isabelle
  imports Complex_Main "HOL-Library.Sublist" "HOL-Library.Log_Nat" "HOL-Library.Code_Target_Numeral"
begin

section \<open>Exceptions\<close>

text \<open>
  The exception classes of \<^verbatim>\<open>unix.py\<close>, together with the built-in Python exceptions
  that the modelled code can let escape. \<open>IOError\<close> stands for \<^verbatim>\<open>OSError\<close> and all of
  its subclasses (Python 3 makes \<^verbatim>\<open>IOError\<close> an alias of \<^verbatim>\<open>OSError\<close>).
\<close>

datatype error =
    SurfaceXmlRenderingFormatError
  | DependencyError
  | InvalidFileExtensionError
  | SVGParseError
  | CairoRenderError
  | ValueError
  | OverflowError
  | AttributeError
  | TypeError
  | IndexError
  | IOError

section \<open>The regular expressions of the dimension parser\<close>

text \<open>
  \<^verbatim>\<open>_get_svg_dimensions\<close> uses four patterns with \<^verbatim>\<open>re.search\<close>. They are built from
  literal characters, the classes \<^verbatim>\<open>[\d.]\<close>, \<^verbatim>\<open>\s\<close>, \<^verbatim>\<open>[^>]\<close> and \<^verbatim>\<open>[^"]\<close>, the greedy
  quantifiers \<^verbatim>\<open>*\<close> and \<^verbatim>\<open>+\<close> on a single class, and capture groups that are not nested.
  The model is a backtracking matcher for exactly this fragment, with the priorities of
  Python's engine: the leftmost start position wins, a greedy quantifier tries the
  longest repetition first and then gives characters back one at a time.

  Characters are the 8-bit \<open>char\<close> of HOL, so a text is a sequence of code points below
  256. In that range \<^verbatim>\<open>\d\<close> is \<^verbatim>\<open>0\<close>..\<^verbatim>\<open>9\<close>, and
  \<^verbatim>\<open>\s\<close> on a \<^verbatim>\<open>str\<close> pattern is the set of characters for which \<^verbatim>\<open>str.isspace\<close>
  holds: codes 9..13, 28..32, 133 and 160.
\<close>

datatype atom = Chr char | Digit_or_dot | Whitespace | Not_chr char

definition is_digit :: "char \<Rightarrow> bool" where
  "is_digit c = ((48::nat) \<le> of_char c \<and> (of_char c :: nat) \<le> 57)"

definition is_space :: "char \<Rightarrow> bool" where
  "is_space c =
     (let n = (of_char c :: nat)
      in (9 \<le> n \<and> n \<le> 13) \<or> (28 \<le> n \<and> n \<le> 32) \<or> n = 133 \<or> n = 160)"

fun atom_ok :: "atom \<Rightarrow> char \<Rightarrow> bool" where
  "atom_ok (Chr d) c = (c = d)"
| "atom_ok Digit_or_dot c = (is_digit c \<or> c = CHR ''.'')"
| "atom_ok Whitespace c = is_space c"
| "atom_ok (Not_chr d) c = (c \<noteq> d)"

datatype piece = One atom | Star atom | Plus atom | Group_open | Group_close

text \<open>
  \<open>match_here ps s opened caps\<close> matches the pieces \<open>ps\<close> at the front of \<open>s\<close>.
  \<open>opened\<close> holds the input as it was when the current group was opened, \<open>caps\<close> the
  groups captured so far (latest first). The result is the list of captured groups in
  the order of the pattern, or \<open>None\<close> when no way of matching exists.
\<close>

fun match_here :: "piece list \<Rightarrow> string \<Rightarrow> string list \<Rightarrow> string list \<Rightarrow> string list option" where
  "match_here [] s opened caps = Some (rev caps)"
| "match_here (One a # ps) [] opened caps = None"
| "match_here (One a # ps) (c # cs) opened caps =
     (if atom_ok a c then match_here ps cs opened caps else None)"
| "match_here (Star a # ps) [] opened caps = match_here ps [] opened caps"
| "match_here (Star a # ps) (c # cs) opened caps =
     (if atom_ok a c
      then (case match_here (Star a # ps) cs opened caps of
              Some r \<Rightarrow> Some r
            | None \<Rightarrow> match_here ps (c # cs) opened caps)
      else match_here ps (c # cs) opened caps)"
| "match_here (Plus a # ps) [] opened caps = None"
| "match_here (Plus a # ps) (c # cs) opened caps =
     (if atom_ok a c then match_here (Star a # ps) cs opened caps else None)"
| "match_here (Group_open # ps) s opened caps = match_here ps s (s # opened) caps"
| "match_here (Group_close # ps) s [] caps = match_here ps s [] caps"
| "match_here (Group_close # ps) s (b # opened) caps =
     match_here ps s opened (take (length b - length s) b # caps)"

text \<open>\<^verbatim>\<open>re.search\<close>: the first start position, from the left, at which the pattern matches.\<close>

fun re_search :: "piece list \<Rightarrow> string \<Rightarrow> string list option" where
  "re_search ps [] = match_here ps [] [] []"
| "re_search ps (c # cs) =
     (case match_here ps (c # cs) [] [] of
        Some r \<Rightarrow> Some r
      | None \<Rightarrow> re_search ps cs)"

text \<open>\<^verbatim>\<open>m.group(n)\<close> for \<open>n \<ge> 1\<close>; a group the pattern does not have raises \<^verbatim>\<open>IndexError\<close>.\<close>

definition group :: "string list \<Rightarrow> nat \<Rightarrow> error + string" where
  "group m n = (if 1 \<le> n \<and> n \<le> length m then Inr (m ! (n - 1)) else Inl IndexError)"

definition lit :: "string \<Rightarrow> piece list" where
  "lit s = map (\<lambda>c. One (Chr c)) s"

text \<open>\<^verbatim>\<open>r'<svg[^>]*width="([\d.]+)"'\<close>\<close>

definition width_re :: "piece list" where
  \<open>width_re = lit ''<svg'' @ [Star (Not_chr CHR ''>'')] @ lit ''width="''
     @ [Group_open, Plus Digit_or_dot, Group_close] @ lit ''"''\<close>

text \<open>\<^verbatim>\<open>r'<svg[^>]*height="([\d.]+)"'\<close>\<close>

definition height_re :: "piece list" where
  \<open>height_re = lit ''<svg'' @ [Star (Not_chr CHR ''>'')] @ lit ''height="''
     @ [Group_open, Plus Digit_or_dot, Group_close] @ lit ''"''\<close>

text \<open>\<^verbatim>\<open>r'<svg[^>]*viewBox="[^"]*\s([\d.]+)\s([\d.]+)"'\<close>\<close>

definition viewbox_re :: "piece list" where
  \<open>viewbox_re = lit ''<svg'' @ [Star (Not_chr CHR ''>'')] @ lit ''viewBox="''
     @ [Star (Not_chr CHR 0x22), One Whitespace,
        Group_open, Plus Digit_or_dot, Group_close, One Whitespace,
        Group_open, Plus Digit_or_dot, Group_close] @ lit ''"''\<close>

text \<open>\<^verbatim>\<open>r'<svg[^>]*style="[^"]*width:\s*([\d.]+)px;[^"]*height:\s*([\d.]+)px;"'\<close>\<close>

definition style_re :: "piece list" where
  \<open>style_re = lit ''<svg'' @ [Star (Not_chr CHR ''>'')] @ lit ''style="''
     @ [Star (Not_chr CHR 0x22)] @ lit ''width:'' @ [Star Whitespace,
        Group_open, Plus Digit_or_dot, Group_close] @ lit ''px;''
     @ [Star (Not_chr CHR 0x22)] @ lit ''height:'' @ [Star Whitespace,
        Group_open, Plus Digit_or_dot, Group_close] @ lit ''px;"''\<close>

section \<open>Numbers\<close>

text \<open>
  Widths and heights are Python numbers: an \<^verbatim>\<open>int\<close>, which is unbounded, or a
  \<^verbatim>\<open>float\<close>, which is a binary double, an infinity or NaN. \<open>Finite x\<close> is the number
  with the exact value \<open>x\<close>.
\<close>

datatype number = Finite rat | PInf | NInf | NaN

text \<open>
  \<^verbatim>\<open>float(s)\<close> of a decimal numeral is the double nearest to its value, ties going to
  the even significand, and infinity from \<open>2 ^ 1024 - 2 ^ 970\<close> on. \<open>floor_log2 x\<close> is
  the binary exponent of \<open>x > 0\<close>; a double has 53 significant bits above the
  smallest exponent \<open>- 1074\<close>.
\<close>

definition round_half_even :: "rat \<Rightarrow> int" where
  "round_half_even x =
     (let f = \<lfloor>x\<rfloor>; d = x - of_int f
      in if d < 1 / 2 then f
         else if 1 / 2 < d then f + 1
         else if even f then f else f + 1)"

definition pow2 :: "int \<Rightarrow> rat" where
  "pow2 k = (if 0 \<le> k then 2 ^ nat k else 1 / 2 ^ nat (- k))"

definition floor_log2 :: "rat \<Rightarrow> int" where
  "floor_log2 x =
     (if 1 \<le> x then int (floorlog 2 (nat \<lfloor>x\<rfloor>)) - 1
      else - int (floorlog 2 (nat (\<lceil>1 / x\<rceil> - 1))))"

definition round_double :: "rat \<Rightarrow> number" where
  "round_double x =
     (if x = 0 then Finite 0
      else
        (let a = \<bar>x\<bar>;
             q = max (floor_log2 a - 52) (- 1074);
             v = of_int (round_half_even (a / pow2 q)) * pow2 q
         in if 2 ^ 1024 \<le> v then (if 0 < x then PInf else NInf)
            else Finite (if 0 < x then v else - v)))"

text \<open>
  \<open>py_float\<close> covers the strings that \<^verbatim>\<open>[\d.]+\<close> can capture, the only ones the program
  passes to \<^verbatim>\<open>float\<close>: digits with at most one dot and at least one digit are accepted,
  everything else in that language (\<^verbatim>\<open>.\<close>, \<^verbatim>\<open>1.2.3\<close>) raises \<^verbatim>\<open>ValueError\<close>.
\<close>

fun digits_value :: "nat \<Rightarrow> string \<Rightarrow> nat option" where
  "digits_value acc [] = Some acc"
| "digits_value acc (c # cs) =
     (if is_digit c then digits_value (10 * acc + ((of_char c :: nat) - 48)) cs else None)"

definition py_float :: "string \<Rightarrow> error + number" where
  "py_float s =
     (let ip = takeWhile (\<lambda>c. c \<noteq> CHR ''.'') s;
          fp = drop (Suc (length ip)) s
      in if ip = [] \<and> fp = [] then Inl ValueError
         else (case (digits_value 0 ip, digits_value 0 fp) of
                 (Some a, Some b) \<Rightarrow> Inr (round_double (of_nat a + of_nat b / 10 ^ length fp))
               | _ \<Rightarrow> Inl ValueError))"

text \<open>\<^verbatim>\<open>float(m1.group(i)), float(m2.group(j))\<close>, evaluated left to right.\<close>

definition float_groups :: "string list \<Rightarrow> nat \<Rightarrow> string list \<Rightarrow> nat \<Rightarrow> error + number \<times> number" where
  "float_groups m1 i m2 j =
     (case group m1 i of
        Inl e \<Rightarrow> Inl e
      | Inr s1 \<Rightarrow>
          (case py_float s1 of
             Inl e \<Rightarrow> Inl e
           | Inr x \<Rightarrow>
               (case group m2 j of
                  Inl e \<Rightarrow> Inl e
                | Inr s2 \<Rightarrow>
                    (case py_float s2 of
                       Inl e \<Rightarrow> Inl e
                     | Inr y \<Rightarrow> Inr (x, y)))))"

section \<open>Sources and the dimension parser\<close>

text \<open>
  \<^verbatim>\<open>bs4.BeautifulSoup(data, 'xml').find('svg')\<close> belongs to a third-party library. It is a
  parameter \<open>find_svg\<close> of the model: a function from the bytes to the first \<^verbatim>\<open>svg\<close>
  element, if there is one. Of the element only \<^verbatim>\<open>.get(name)\<close> is used, so an element is
  its attribute map. A found element is truthy (\<^verbatim>\<open>Tag.__bool__\<close> is constantly true).
\<close>

type_synonym tag = "string \<rightharpoonup> string"

text \<open>
  \<^verbatim>\<open>class XmlGraphic(bytes)\<close>. The byte value of an instance and its attribute \<^verbatim>\<open>xml\<close>
  are the same bytes (the constructor argument), so the record has one field for both.
\<close>

record XmlGraphic =
  xml :: string
  w :: "string option"
  h :: "string option"

definition XmlGraphic_init :: "(string \<Rightarrow> tag option) \<Rightarrow> string \<Rightarrow> error + XmlGraphic" where
  "XmlGraphic_init find_svg b =
     (case find_svg b of
        None \<Rightarrow> Inl AttributeError
      | Some t \<Rightarrow> Inr \<lparr>xml = b, w = t ''width'', h = t ''height''\<rparr>)"

definition XmlGraphic_render :: "XmlGraphic \<Rightarrow> string" where
  "XmlGraphic_render g = xml g"

text \<open>The argument \<^verbatim>\<open>from_file: Optional[str | XmlGraphic]\<close>.\<close>

datatype source = Path string | Graphic XmlGraphic | NoSource

text \<open>\<^verbatim>\<open>s.endswith(suf)\<close>\<close>

definition endswith :: "string \<Rightarrow> string \<Rightarrow> bool" where
  "endswith s suf = (length suf \<le> length s \<and> drop (length s - length suf) s = suf)"

text \<open>
  The file system is a function from a path to the text that \<^verbatim>\<open>open(path, 'r').read()\<close>
  returns, or to the exception it raises. \<^verbatim>\<open>open\<close> is applied to \<^verbatim>\<open>self.from_file\<close>
  whatever it is: an \<^verbatim>\<open>XmlGraphic\<close> is a \<^verbatim>\<open>bytes\<close> object and is taken as a path,
  \<^verbatim>\<open>None\<close> is a \<^verbatim>\<open>TypeError\<close>.
\<close>

type_synonym filesystem = "string \<Rightarrow> error + string"

definition open_read :: "filesystem \<Rightarrow> source \<Rightarrow> error + string" where
  "open_read fs src =
     (case src of
        Path p \<Rightarrow> fs p
      | Graphic g \<Rightarrow> fs (xml g)
      | NoSource \<Rightarrow> Inl TypeError)"

definition get_svg_dimensions ::
  "filesystem \<Rightarrow> source \<Rightarrow> number option \<Rightarrow> number option \<Rightarrow> error + number \<times> number" where
  "get_svg_dimensions fs from_file width height =
     (if width \<noteq> None \<and> height \<noteq> None then Inr (the width, the height)
      else
        (case open_read fs from_file of
           Inl e \<Rightarrow> Inl (if e = IOError then SVGParseError else e)
         | Inr content \<Rightarrow>
             (let width_match = re_search width_re content;
                  height_match = re_search height_re content
              in if width_match \<noteq> None \<and> height_match \<noteq> None
                 then float_groups (the width_match) 1 (the height_match) 1
                 else
                   (case re_search viewbox_re content of
                      Some viewbox_match \<Rightarrow> float_groups viewbox_match 1 viewbox_match 2
                    | None \<Rightarrow>
                        (case re_search style_re content of
                           Some style_match \<Rightarrow> float_groups style_match 1 style_match 2
                         | None \<Rightarrow> Inl SVGParseError)))))"

section \<open>The surface object and its constructor\<close>

record SvgImageSurface =
  save_bg :: bool
  from_file :: source
  to_file :: "string option"
  width :: number
  height :: number

text \<open>
  \<^verbatim>\<open>_load_libraries\<close> and \<^verbatim>\<open>_define_function_types\<close> find and bind the shared libraries.
  What they do depends on the machine; the constructor takes their outcome as the
  parameter \<open>load_libraries\<close>: \<open>None\<close> when both return, the exception otherwise.
\<close>

definition SvgImageSurface_init ::
  "filesystem \<Rightarrow> error option \<Rightarrow> source \<Rightarrow> string option \<Rightarrow> bool \<Rightarrow>
   number option \<Rightarrow> number option \<Rightarrow> error + SvgImageSurface" where
  "SvgImageSurface_init fs load_libraries src dst bg wd ht =
     (case (case src of
              Path p \<Rightarrow>
                if \<not> endswith p ''.svg'' then Some InvalidFileExtensionError
                else if dst \<noteq> None \<and> the dst \<noteq> [] \<and> \<not> endswith (the dst) ''.png''
                then Some InvalidFileExtensionError
                else None
            | _ \<Rightarrow> None) of
        Some e \<Rightarrow> Inl e
      | None \<Rightarrow>
          (case get_svg_dimensions fs src wd ht of
             Inl e \<Rightarrow> Inl e
           | Inr (x, y) \<Rightarrow>
               (case load_libraries of
                  Some e \<Rightarrow> Inl e
                | None \<Rightarrow>
                    Inr \<lparr>save_bg = bg, from_file = src, to_file = dst, width = x, height = y\<rparr>)))"

section \<open>The native libraries\<close>

text \<open>
  Pointers returned through \<^verbatim>\<open>c_void_p\<close> arrive in Python as an \<^verbatim>\<open>int\<close>, or as
  \<^verbatim>\<open>None\<close> for \<^verbatim>\<open>NULL\<close>; both \<^verbatim>\<open>None\<close> and \<open>0\<close> are falsy. A pointer is a natural
  number and \<open>0\<close> is \<^verbatim>\<open>NULL\<close>.

  The functions of librsvg and cairo that the program calls are the fields of a record:
  what each returns for its arguments. The PNG stream writer returns, besides its
  status, the chunks it handed to the write callback.

  An argument declared \<^verbatim>\<open>c_int\<close> in \<^verbatim>\<open>argtypes\<close> is converted without an overflow
  check: the library receives the Python integer reduced to 32 bits, two's complement.
\<close>

definition c_int :: "int \<Rightarrow> int" where
  "c_int n = (n + 2 ^ 31) mod 2 ^ 32 - 2 ^ 31"

type_synonym ptr = nat

record native =
  rsvg_handle_new_from_file :: "string \<Rightarrow> ptr"
  rsvg_handle_new_from_data :: "string \<Rightarrow> int \<Rightarrow> ptr"
  cairo_image_surface_create :: "int \<Rightarrow> int \<Rightarrow> int \<Rightarrow> ptr"
  cairo_create :: "ptr \<Rightarrow> ptr"
  rsvg_handle_render_cairo :: "ptr \<Rightarrow> ptr \<Rightarrow> int"
  cairo_surface_write_to_png :: "ptr \<Rightarrow> string \<Rightarrow> int"
  cairo_surface_write_to_png_stream :: "ptr \<Rightarrow> string list \<times> int"
  cairo_image_surface_get_stride :: "ptr \<Rightarrow> ptr"

text \<open>
  Every operation returns, next to its result, the native calls it made, in order, each
  with its arguments and what it returned.
\<close>

datatype call =
    Rsvg_handle_new_from_file string ptr
  | Rsvg_handle_new_from_data string int ptr
  | Cairo_status_to_string
  | Cairo_image_surface_create int int int ptr
  | Cairo_create ptr ptr
  | Rsvg_handle_render_cairo ptr ptr int
  | Cairo_surface_write_to_png ptr string int
  | Cairo_surface_write_to_png_stream ptr int
  | Cairo_image_surface_get_stride ptr ptr
  | Cairo_destroy ptr
  | Cairo_surface_destroy ptr
  | Rsvg_handle_close ptr

datatype resource = Document_handle ptr | Drawing_context ptr | Pixel_surface ptr

text \<open>A creating call acquires a resource when it returns a pointer other than \<^verbatim>\<open>NULL\<close>.\<close>

fun acquired_by :: "call \<Rightarrow> resource list" where
  "acquired_by (Rsvg_handle_new_from_file p r) = (if r \<noteq> 0 then [Document_handle r] else [])"
| "acquired_by (Rsvg_handle_new_from_data d n r) = (if r \<noteq> 0 then [Document_handle r] else [])"
| "acquired_by (Cairo_image_surface_create f x y r) = (if r \<noteq> 0 then [Pixel_surface r] else [])"
| "acquired_by (Cairo_create s r) = (if r \<noteq> 0 then [Drawing_context r] else [])"
| "acquired_by _ = []"

fun released_by :: "call \<Rightarrow> resource list" where
  "released_by (Cairo_destroy c) = [Drawing_context c]"
| "released_by (Cairo_surface_destroy s) = [Pixel_surface s]"
| "released_by (Rsvg_handle_close d) = [Document_handle d]"
| "released_by _ = []"

definition acquired :: "call list \<Rightarrow> resource list" where
  "acquired t = concat (map acquired_by t)"

definition released :: "call list \<Rightarrow> resource list" where
  "released t = concat (map released_by t)"

section \<open>The render session\<close>

text \<open>
  \<^verbatim>\<open>int(x)\<close> of a number: truncation towards zero; \<^verbatim>\<open>OverflowError\<close> for an infinity
  and \<^verbatim>\<open>ValueError\<close> for NaN.
\<close>

fun py_int :: "number \<Rightarrow> error + int" where
  "py_int (Finite x) = Inr (if 0 \<le> x then \<lfloor>x\<rfloor> else \<lceil>x\<rceil>)"
| "py_int PInf = Inl OverflowError"
| "py_int NInf = Inl OverflowError"
| "py_int NaN = Inl ValueError"

text \<open>
  \<^verbatim>\<open>_cleanup_resources\<close>. The second operand of each condition is a function object of
  the library and always truthy, so each release happens when its pointer is not
  \<^verbatim>\<open>NULL\<close>.
\<close>

definition cleanup_resources :: "ptr \<Rightarrow> ptr \<Rightarrow> ptr \<Rightarrow> call list" where
  "cleanup_resources handle context surface =
     (if context \<noteq> 0 then [Cairo_destroy context] else [])
     @ (if surface \<noteq> 0 then [Cairo_surface_destroy surface] else [])
     @ (if handle \<noteq> 0 then [Rsvg_handle_close handle] else [])"

text \<open>
  The first half of \<^verbatim>\<open>_render\<close>, up to the test \<^verbatim>\<open>if not handle\<close>: the two
  \<^verbatim>\<open>isinstance\<close> branches that load the document. \<^verbatim>\<open>XmlGraphic(self.from_file)\<close> builds
  a new \<^verbatim>\<open>XmlGraphic\<close> from the bytes of the source each time it is written, running
  the constructor again. With no source at all the handle stays \<^verbatim>\<open>None\<close>.
\<close>

definition render_load ::
  "(string \<Rightarrow> tag option) \<Rightarrow> native \<Rightarrow> SvgImageSurface \<Rightarrow> (error + ptr) \<times> call list" where
  "render_load find_svg lib self =
     (case from_file self of
        Graphic g \<Rightarrow>
          (case XmlGraphic_init find_svg (xml g) of
             Inl e \<Rightarrow> (Inl e, [])
           | Inr g1 \<Rightarrow>
               (case find_svg (XmlGraphic_render g1) of
                  Some content \<Rightarrow>
                    (case XmlGraphic_init find_svg (xml g) of
                       Inl e \<Rightarrow> (Inl e, [])
                     | Inr g2 \<Rightarrow>
                         (let n = c_int (int (length (xml g)));
                              handle = rsvg_handle_new_from_data lib (XmlGraphic_render g2) n
                          in (Inr handle,
                              [Rsvg_handle_new_from_data (XmlGraphic_render g2) n handle])))
                | None \<Rightarrow> (Inl SurfaceXmlRenderingFormatError, [])))
      | Path p \<Rightarrow>
          (let handle = rsvg_handle_new_from_file lib p
           in (Inr handle, [Rsvg_handle_new_from_file p handle]))
      | NoSource \<Rightarrow> (Inr 0, []))"

text \<open>
  \<^verbatim>\<open>_render\<close>: the result is the triple \<open>(handle, context, surface)\<close>. The arguments
  of \<^verbatim>\<open>cairo_image_surface_create\<close> are evaluated before the call, \<^verbatim>\<open>int(self.width)\<close>
  first; an exception of \<^verbatim>\<open>int\<close> leaves \<^verbatim>\<open>_render\<close> at that point.
\<close>

definition render ::
  "(string \<Rightarrow> tag option) \<Rightarrow> native \<Rightarrow> SvgImageSurface \<Rightarrow>
   (error + ptr \<times> ptr \<times> ptr) \<times> call list" where
  "render find_svg lib self =
     (case render_load find_svg lib self of
        (Inl e, t) \<Rightarrow> (Inl e, t)
      | (Inr handle, t) \<Rightarrow>
          if handle = 0 then (Inl CairoRenderError, t @ [Cairo_status_to_string])
          else
            (let surface_format = (if \<not> save_bg self then 0 else 1)
             in case py_int (width self) of
                  Inl e \<Rightarrow> (Inl e, t)
                | Inr x \<Rightarrow>
                    (case py_int (height self) of
                       Inl e \<Rightarrow> (Inl e, t)
                     | Inr y \<Rightarrow>
                         (let surface = cairo_image_surface_create lib
                                          (c_int surface_format) (c_int x) (c_int y);
                              context = cairo_create lib surface;
                              render_status = rsvg_handle_render_cairo lib handle context;
                              t' = t @ [Cairo_image_surface_create
                                          (c_int surface_format) (c_int x) (c_int y) surface,
                                        Cairo_create surface context,
                                        Rsvg_handle_render_cairo handle context render_status]
                          in if render_status \<noteq> 1
                             then (Inl CairoRenderError,
                                   t' @ cleanup_resources handle context surface)
                             else (Inr (handle, context, surface), t')))))"

text \<open>\<^verbatim>\<open>_save\<close>. The \<^verbatim>\<open>finally\<close> clause runs whether the write succeeds or not.\<close>

definition save ::
  "(string \<Rightarrow> tag option) \<Rightarrow> native \<Rightarrow> SvgImageSurface \<Rightarrow> (error + unit) \<times> call list" where
  "save find_svg lib self =
     (if to_file self = None \<or> to_file self = Some [] then (Inl ValueError, [])
      else
        (case render find_svg lib self of
           (Inl e, t) \<Rightarrow> (Inl e, t)
         | (Inr (handle, context, surface), t) \<Rightarrow>
             (let status = cairo_surface_write_to_png lib surface (the (to_file self));
                  t' = t @ [Cairo_surface_write_to_png surface (the (to_file self)) status]
              in (if status \<noteq> 0 then Inl CairoRenderError else Inr (),
                  t' @ cleanup_resources handle context surface))))"

text \<open>
  \<^verbatim>\<open>_tobytes\<close>. The callback appends each chunk to the buffer and returns \<open>0\<close>; the
  buffer's value is the concatenation of the chunks.
\<close>

definition tobytes ::
  "(string \<Rightarrow> tag option) \<Rightarrow> native \<Rightarrow> SvgImageSurface \<Rightarrow> (error + string) \<times> call list" where
  "tobytes find_svg lib self =
     (case render find_svg lib self of
        (Inl e, t) \<Rightarrow> (Inl e, t)
      | (Inr (handle, context, surface), t) \<Rightarrow>
          (case cairo_surface_write_to_png_stream lib surface of
             (chunks, status) \<Rightarrow>
               (let buffer = concat chunks;
                    t' = t @ [Cairo_surface_write_to_png_stream surface status]
                in (if status \<noteq> 0 then Inl CairoRenderError else Inr buffer,
                    t' @ cleanup_resources handle context surface))))"

text \<open>\<^verbatim>\<open>_stride\<close>\<close>

definition stride ::
  "(string \<Rightarrow> tag option) \<Rightarrow> native \<Rightarrow> SvgImageSurface \<Rightarrow> (error + ptr) \<times> call list" where
  "stride find_svg lib self =
     (case render find_svg lib self of
        (Inl e, t) \<Rightarrow> (Inl e, t)
      | (Inr (handle, context, surface), t) \<Rightarrow>
          (let r = cairo_image_surface_get_stride lib surface
           in (Inr r, t @ [Cairo_image_surface_get_stride surface r])))"

section \<open>Attribute text inside svg tags\<close>






section \<open>Resources held, and example environments\<close>

text \<open>
  The resources behind a triple \<open>(handle, context, surface)\<close>, in the order in which
  \<^verbatim>\<open>_render\<close> creates them; a \<^verbatim>\<open>NULL\<close> pointer stands for no resource.
\<close>

definition held :: "ptr \<Rightarrow> ptr \<Rightarrow> ptr \<Rightarrow> resource list" where
  "held handle context surface =
     (if handle \<noteq> 0 then [Document_handle handle] else [])
     @ (if surface \<noteq> 0 then [Pixel_surface surface] else [])
     @ (if context \<noteq> 0 then [Drawing_context context] else [])"

text \<open>A file system with a single readable file; every other path is an \<^verbatim>\<open>OSError\<close>.\<close>

definition fs_with :: "string \<Rightarrow> string \<Rightarrow> filesystem" where
  "fs_with path content = (\<lambda>p. if p = path then Inr content else Inl IOError)"

text \<open>
  Libraries for the examples: one on which every call succeeds, one whose render call
  reports failure, one whose PNG writers report failure.
\<close>

definition example_lib :: native where
  "example_lib =
     \<lparr>rsvg_handle_new_from_file = (\<lambda>p. 11),
      rsvg_handle_new_from_data = (\<lambda>d n. 12),
      cairo_image_surface_create = (\<lambda>f x y. 21),
      cairo_create = (\<lambda>s. 31),
      rsvg_handle_render_cairo = (\<lambda>d c. 1),
      cairo_surface_write_to_png = (\<lambda>s p. 0),
      cairo_surface_write_to_png_stream = (\<lambda>s. ([''PN'', ''G''], 0)),
      cairo_image_surface_get_stride = (\<lambda>s. 400)\<rparr>"

definition example_lib_render_fails :: native where
  "example_lib_render_fails = example_lib\<lparr>rsvg_handle_render_cairo := (\<lambda>d c. 0)\<rparr>"

definition example_lib_png_fails :: native where
  "example_lib_png_fails =
     example_lib\<lparr>cairo_surface_write_to_png := (\<lambda>s p. 11),
                  cairo_surface_write_to_png_stream := (\<lambda>s. ([], 11))\<rparr>"

definition example_surface :: SvgImageSurface where
  "example_surface =
     \<lparr>save_bg = True, from_file = Path ''in.svg'', to_file = Some ''out.png'',
      width = Finite 100, height = Finite 50\<rparr>"

definition example_find_svg :: "string \<Rightarrow> tag option" where
  \<open>example_find_svg b =
     (if b = ''<svg width="10px" height="10px"/>''
      then Some [''width'' \<mapsto> ''10px'', ''height'' \<mapsto> ''10px'']
      else None)\<close>

definition example_graphic :: XmlGraphic where
  \<open>example_graphic =
     \<lparr>xml = ''<svg width="10px" height="10px"/>'', w = Some ''10px'', h = Some ''10px''\<rparr>\<close>

text \<open>The same request with an infinite width, and with a destination that is no PNG path.\<close>

definition example_surface_inf :: SvgImageSurface where
  "example_surface_inf = example_surface\<lparr>width := PInf\<rparr>"

text \<open>A decimal numeral of 310 digits, the value \<open>10 ^ 309\<close>.\<close>

definition long_numeral :: string where
  "long_numeral =
       ''1''
       @ ''000000000000000000000000000000000000000000000000000000000000''
       @ ''000000000000000000000000000000000000000000000000000000000000''
       @ ''000000000000000000000000000000000000000000000000000000000000''
       @ ''000000000000000000000000000000000000000000000000000000000000''
       @ ''000000000000000000000000000000000000000000000000000000000000''
       @ ''000000000''"

definition long_width_document :: string where
  \<open>long_width_document = ''<svg width="'' @ long_numeral @ ''" height="50"></svg>''\<close>

section \<open>Evaluation rules\<close>

lemmas example_defs = example_lib_def example_lib_render_fails_def example_lib_png_fails_def
  example_surface_def example_surface_inf_def example_find_svg_def example_graphic_def

lemmas run_defs = save_def tobytes_def stride_def render_def render_load_def
  cleanup_resources_def c_int_def XmlGraphic_init_def XmlGraphic_render_def Let_def

lemmas regex_defs = width_re_def height_re_def viewbox_re_def style_re_def lit_def
  is_digit_def is_space_def

section \<open>Facts about rounding\<close>

text \<open>
  A natural number below \<open>2 ^ 53\<close> is a double and \<^verbatim>\<open>float\<close> returns it unchanged; a
  value from \<open>2 ^ 1024\<close> on becomes infinity.
\<close>

lemma round_half_even_int: "round_half_even (of_int k) = k"
  by (simp add: round_half_even_def Let_def)

lemma pow2_nonpos: "q \<le> 0 \<Longrightarrow> pow2 q = 1 / 2 ^ nat (- q)"
  by (cases "q = 0") (simp_all add: pow2_def)

lemma floor_log2_nat:
  assumes "0 < n"
  shows "floor_log2 (of_nat n) = int (floorlog 2 n) - 1"
  using assms by (simp add: floor_log2_def)

lemma round_double_nat:
  assumes "n < 2 ^ 53"
  shows "round_double (of_nat n) = Finite (of_nat n)"
proof (cases "n = 0")
  case True
  then show ?thesis by (simp add: round_double_def)
next
  case False
  then have pos: "0 < n" by simp
  define e where "e = floor_log2 (of_nat n)"
  have e: "e = int (floorlog 2 n) - 1"
    unfolding e_def using pos by (rule floor_log2_nat)
  have "floorlog 2 n \<le> 53"
    using assms by (simp add: floorlog_le_iff)
  with e have le: "e - 52 \<le> 0" by simp
  have "1 \<le> floorlog 2 n"
    using pos by (simp add: floorlog_def)
  with e have "- 1074 \<le> e - 52" by simp
  then have q: "max (e - 52) (- 1074) = e - 52" by simp
  define k where "k = nat (- (e - 52))"
  have p: "pow2 (e - 52) = 1 / 2 ^ k"
    unfolding k_def using le by (rule pow2_nonpos)
  have d: "(of_nat n :: rat) / pow2 (e - 52) = of_int (int n * 2 ^ k)"
    by (simp add: p)
  have r: "round_half_even ((of_nat n :: rat) / pow2 (e - 52)) = int n * 2 ^ k"
    unfolding d by (rule round_half_even_int)
  have v: "of_int (round_half_even ((of_nat n :: rat) / pow2 (e - 52))) * pow2 (e - 52)
             = (of_nat n :: rat)"
    unfolding r by (simp add: p)
  have "(of_nat n :: rat) < of_nat (2 ^ 53)"
    using assms by (simp only: of_nat_less_iff)
  also have "\<dots> \<le> 2 ^ 1024" by simp
  finally have small: "\<not> (2 ^ 1024 \<le> (of_nat n :: rat))" by simp
  from pos have nz: "(of_nat n :: rat) \<noteq> 0" "(0 :: rat) < of_nat n" by simp_all
  show ?thesis
    using nz small v q
    by (simp add: round_double_def Let_def e_def [symmetric])
qed

lemma round_double_numeral:
  "(numeral k :: nat) < 2 ^ 53 \<Longrightarrow> round_double (numeral k) = Finite (numeral k)"
  using round_double_nat [of "numeral k"] by simp


lemma floor_log2_lower:
  assumes "1 \<le> x"
  shows "pow2 (floor_log2 x) \<le> x"
proof -
  define n where "n = nat \<lfloor>x\<rfloor>"
  have n: "0 < n" using assms by (simp add: n_def)
  have fl: "floor_log2 x = int (floorlog 2 n) - 1"
    using assms by (simp add: floor_log2_def n_def)
  have "1 \<le> floorlog 2 n" using n by (simp add: floorlog_def)
  then have nn: "0 \<le> int (floorlog 2 n) - 1" by simp
  have "2 ^ (floorlog 2 n - 1) \<le> n"
    using floorlog_bounds [of n 2] n by simp
  then have "(of_nat (2 ^ (floorlog 2 n - 1)) :: rat) \<le> of_nat n"
    by (simp only: of_nat_le_iff)
  also have "(of_nat n :: rat) \<le> x"
    using assms by (simp add: n_def)
  finally have "(2 :: rat) ^ (floorlog 2 n - 1) \<le> x" by simp
  moreover have "nat (int (floorlog 2 n) - 1) = floorlog 2 n - 1" by simp
  ultimately show ?thesis using nn by (simp add: fl pow2_def)
qed

lemma floor_log2_big:
  assumes "2 ^ 1024 \<le> x"
  shows "1024 \<le> floor_log2 x"
proof -
  have one: "1 \<le> x" using assms by (rule order_trans [rotated]) simp
  define n where "n = nat \<lfloor>x\<rfloor>"
  have fl: "floor_log2 x = int (floorlog 2 n) - 1"
    using one by (simp add: floor_log2_def n_def)
  have "(2 :: int) ^ 1024 \<le> \<lfloor>x\<rfloor>"
    using assms by (simp add: le_floor_iff)
  then have "2 ^ 1024 \<le> n" by (simp add: n_def le_nat_iff)
  then have "floorlog 2 (1 * 2 ^ 1024) \<le> floorlog 2 n"
    by (intro floorlog_mono) simp
  moreover have "floorlog 2 (1 * 2 ^ 1024) = floorlog 2 1 + 1024"
    by (rule floorlog_power) simp_all
  moreover have "floorlog 2 1 = 1" by (simp add: floorlog_def)
  ultimately show ?thesis by (simp add: fl)
qed

lemma round_half_even_ge:
  assumes "of_int k \<le> x"
  shows "k \<le> round_half_even x"
proof -
  from assms have "k \<le> \<lfloor>x\<rfloor>" by (simp add: le_floor_iff)
  then show ?thesis by (simp add: round_half_even_def Let_def)
qed

lemma round_double_overflow:
  assumes "2 ^ 1024 \<le> x"
  shows "round_double x = PInf"
proof -
  have pos: "0 < x" using assms by (rule less_le_trans [rotated]) simp
  have one: "1 \<le> x" using assms by (rule order_trans [rotated]) simp
  define e where "e = floor_log2 x"
  have e: "1024 \<le> e" unfolding e_def using assms by (rule floor_log2_big)
  then have q: "max (e - 52) (- 1074) = e - 52" by simp
  define j where "j = nat (e - 52)"
  have p: "pow2 (e - 52) = 2 ^ j" using e by (simp add: pow2_def j_def)
  have pe: "pow2 e = 2 ^ 52 * 2 ^ j"
  proof -
    have "nat e = 52 + j" using e by (simp add: j_def)
    then show ?thesis using e by (simp add: pow2_def power_add)
  qed
  have "pow2 e \<le> x" unfolding e_def using one by (rule floor_log2_lower)
  then have "(of_int (2 ^ 52) :: rat) \<le> x / pow2 (e - 52)"
    by (simp add: p pe pos_le_divide_eq)
  then have m: "2 ^ 52 \<le> round_half_even (x / pow2 (e - 52))"
    by (rule round_half_even_ge)
  have "(1024 :: nat) \<le> nat e" using e by simp
  then have "(2 :: rat) ^ 1024 \<le> 2 ^ nat e" by (intro power_increasing) simp_all
  also have "\<dots> = pow2 e" using e by (simp add: pow2_def)
  also have "\<dots> = of_int (2 ^ 52) * pow2 (e - 52)" by (simp add: p pe)
  also have "\<dots> \<le> of_int (round_half_even (x / pow2 (e - 52))) * pow2 (e - 52)"
    using m by (intro mult_right_mono) (simp_all add: p)
  finally have v: "2 ^ 1024 \<le> of_int (round_half_even (x / pow2 (e - 52))) * pow2 (e - 52)" .
  from pos have "x \<noteq> 0" by simp
  with pos v q show ?thesis
    by (simp add: round_double_def Let_def e_def [symmetric])
qed

lemma round_double_big_numeral:
  "(2 :: rat) ^ 1024 \<le> numeral k \<Longrightarrow> round_double (numeral k) = PInf"
  by (rule round_double_overflow)

lemmas float_defs = float_groups_def group_def py_float_def is_digit_def round_double_numeral

section \<open>Facts about the patterns\<close>


















section \<open>Facts about traces\<close>

lemma acquired_append: "acquired (a @ b) = acquired a @ acquired b"
  by (simp add: acquired_def)

lemma released_append: "released (a @ b) = released a @ released b"
  by (simp add: released_def)

lemma acquired_Nil: "acquired [] = []"
  by (simp add: acquired_def)

lemma released_Nil: "released [] = []"
  by (simp add: released_def)

lemma acquired_Cons: "acquired (c # t) = acquired_by c @ acquired t"
  by (simp add: acquired_def)

lemma released_Cons: "released (c # t) = released_by c @ released t"
  by (simp add: released_def)

lemma acquired_single: "acquired [c] = acquired_by c"
  by (simp add: acquired_def)

lemma released_single: "released [c] = released_by c"
  by (simp add: released_def)

lemma released_cleanup: "released (cleanup_resources dh cx sf) = rev (held dh cx sf)"
  by (simp add: cleanup_resources_def held_def released_def)

lemma acquired_cleanup: "acquired (cleanup_resources dh cx sf) = []"
  by (simp add: cleanup_resources_def acquired_def)

lemma held_null: "held 0 0 0 = []"
  by (simp add: held_def)


lemma render_load_trace:
  assumes "render_load find_svg lib self = (r, t)"
  shows "released t = [] \<and>
         (case r of Inl e \<Rightarrow> acquired t = []
          | Inr dh \<Rightarrow> acquired t = (if dh \<noteq> 0 then [Document_handle dh] else []))"
  using assms
  by (auto simp: render_load_def released_def acquired_def Let_def
           split: source.splits sum.splits option.splits)

lemma py_int_error: "py_int x = Inl e \<Longrightarrow> e \<noteq> CairoRenderError"
  by (cases x) auto

lemma held_handle_only: "dh \<noteq> 0 \<Longrightarrow> held dh 0 0 = [Document_handle dh]"
  by (simp add: held_def)

text \<open>
  What \<^verbatim>\<open>_render\<close> leaves behind. When it raises, either everything acquired has been
  released in reverse order, or nothing has been released and the error is the one
  raised by \<^verbatim>\<open>int\<close> on the width or the height.
\<close>

lemma render_trace:
  assumes "render find_svg lib self = (r, t)"
  shows "\<exists>dh cx sf. acquired t = held dh cx sf \<and>
           (case r of
              Inl e \<Rightarrow>
                released t = rev (acquired t) \<or>
                (released t = [] \<and> e \<noteq> CairoRenderError \<and>
                 (py_int (width self) = Inl e \<or> py_int (height self) = Inl e))
            | Inr trip \<Rightarrow> trip = (dh, cx, sf) \<and> released t = [] \<and> dh \<noteq> 0)"
proof -
  obtain r0 t0 where l: "render_load find_svg lib self = (r0, t0)"
    by (cases "render_load find_svg lib self")
  note lt = render_load_trace [OF l]
  show ?thesis
  proof (cases r0)
    case (Inl e)
    with l lt assms have "acquired t = held 0 0 0" "r = Inl e" "released t = []"
      by (auto simp: render_def held_def)
    then show ?thesis by (intro exI [of _ 0]) (simp add: held_null)
  next
    case (Inr dh)
    show ?thesis
    proof (cases "dh = 0")
      case True
      with Inr l lt assms have "acquired t = held 0 0 0" "r = Inl CairoRenderError" "released t = []"
        by (auto simp: render_def held_def acquired_append released_append
              acquired_single released_single)
      then show ?thesis by (intro exI [of _ 0]) (simp add: held_null)
    next
      case False
      from False Inr lt have t0: "acquired t0 = [Document_handle dh]" "released t0 = []"
        by simp_all
      show ?thesis
      proof (cases "py_int (width self)")
        case wl: (Inl e)
        with False Inr l assms have "r = Inl e" "t = t0"
          by (auto simp: render_def Let_def)
        with t0 wl False py_int_error [OF wl]
        have "acquired t = held dh 0 0 \<and>
              (case r of
                 Inl e \<Rightarrow>
                   released t = rev (acquired t) \<or>
                   (released t = [] \<and> e \<noteq> CairoRenderError \<and>
                    (py_int (width self) = Inl e \<or> py_int (height self) = Inl e))
               | Inr trip \<Rightarrow> trip = (dh, 0, 0) \<and> released t = [] \<and> dh \<noteq> 0)"
          by (simp add: held_handle_only)
        then show ?thesis by blast
      next
        case wr: (Inr x)
        show ?thesis
        proof (cases "py_int (height self)")
          case hl: (Inl e)
          with wr False Inr l assms have "r = Inl e" "t = t0"
            by (auto simp: render_def Let_def)
          with t0 hl False py_int_error [OF hl]
          have "acquired t = held dh 0 0 \<and>
                (case r of
                   Inl e \<Rightarrow>
                     released t = rev (acquired t) \<or>
                     (released t = [] \<and> e \<noteq> CairoRenderError \<and>
                      (py_int (width self) = Inl e \<or> py_int (height self) = Inl e))
                 | Inr trip \<Rightarrow> trip = (dh, 0, 0) \<and> released t = [] \<and> dh \<noteq> 0)"
            by (simp add: held_handle_only)
          then show ?thesis by blast
        next
          case hr: (Inr y)
          define sf where "sf = cairo_image_surface_create lib
                                  (c_int (if \<not> save_bg self then 0 else 1)) (c_int x) (c_int y)"
          define cx where "cx = cairo_create lib sf"
          from False Inr l t0 wr hr assms
          have a: "acquired t = held dh cx sf"
            by (auto simp: render_def Let_def acquired_append acquired_cleanup held_def
                  acquired_Cons acquired_Nil sf_def cx_def split: if_splits)
          from False Inr l t0 wr hr assms
          have b: "case r of Inl e \<Rightarrow> released t = rev (held dh cx sf)
                   | Inr trip \<Rightarrow> trip = (dh, cx, sf) \<and> released t = [] \<and> dh \<noteq> 0"
            by (auto simp: render_def Let_def released_append released_cleanup
                  released_Cons released_Nil sf_def cx_def split: if_splits)
          from a b show ?thesis
            by (intro exI [of _ dh] exI [of _ cx] exI [of _ sf]) (auto split: sum.splits)
        qed
      qed
    qed
  qed
qed

text \<open>
  The same for the three operations: \<^verbatim>\<open>_save\<close> and \<^verbatim>\<open>_tobytes\<close> release in reverse
  order whenever \<^verbatim>\<open>_render\<close> returned; \<^verbatim>\<open>_stride\<close> releases nothing then.
\<close>

lemma save_trace:
  assumes "save find_svg lib self = (r, t)"
  shows "\<exists>dh cx sf. acquired t = held dh cx sf \<and>
           (released t = rev (acquired t) \<or>
            (released t = [] \<and>
             (\<exists>e. r = Inl e \<and> e \<noteq> CairoRenderError \<and>
                  (py_int (width self) = Inl e \<or> py_int (height self) = Inl e))))"
proof (cases "to_file self = None \<or> to_file self = Some []")
  case True
  with assms have "acquired t = held 0 0 0" "released t = []"
    by (auto simp: save_def held_def acquired_Nil released_Nil)
  then show ?thesis by (intro exI [of _ 0]) (simp add: held_null)
next
  case False
  obtain r0 t0 where l: "render find_svg lib self = (r0, t0)"
    by (cases "render find_svg lib self")
  from render_trace [OF l] obtain dh cx sf where
    a: "acquired t0 = held dh cx sf" and
    b: "case r0 of
          Inl e \<Rightarrow>
            released t0 = rev (acquired t0) \<or>
            (released t0 = [] \<and> e \<noteq> CairoRenderError \<and>
             (py_int (width self) = Inl e \<or> py_int (height self) = Inl e))
        | Inr trip \<Rightarrow> trip = (dh, cx, sf) \<and> released t0 = [] \<and> dh \<noteq> 0"
    by blast
  from False l a b assms
  have "acquired t = held dh cx sf \<and>
           (released t = rev (acquired t) \<or>
            (released t = [] \<and>
             (\<exists>e. r = Inl e \<and> e \<noteq> CairoRenderError \<and>
                  (py_int (width self) = Inl e \<or> py_int (height self) = Inl e))))"
    by (cases r0)
       (auto simp: save_def Let_def acquired_append released_append released_cleanup
          acquired_cleanup acquired_Cons released_Cons acquired_Nil released_Nil)
  then show ?thesis by blast
qed

lemma tobytes_trace:
  assumes "tobytes find_svg lib self = (r, t)"
  shows "\<exists>dh cx sf. acquired t = held dh cx sf \<and>
           (released t = rev (acquired t) \<or>
            (released t = [] \<and>
             (\<exists>e. r = Inl e \<and> e \<noteq> CairoRenderError \<and>
                  (py_int (width self) = Inl e \<or> py_int (height self) = Inl e))))"
proof -
  obtain r0 t0 where l: "render find_svg lib self = (r0, t0)"
    by (cases "render find_svg lib self")
  from render_trace [OF l] obtain dh cx sf where
    a: "acquired t0 = held dh cx sf" and
    b: "case r0 of
          Inl e \<Rightarrow>
            released t0 = rev (acquired t0) \<or>
            (released t0 = [] \<and> e \<noteq> CairoRenderError \<and>
             (py_int (width self) = Inl e \<or> py_int (height self) = Inl e))
        | Inr trip \<Rightarrow> trip = (dh, cx, sf) \<and> released t0 = [] \<and> dh \<noteq> 0"
    by blast
  from l a b assms
  have "acquired t = held dh cx sf \<and>
           (released t = rev (acquired t) \<or>
            (released t = [] \<and>
             (\<exists>e. r = Inl e \<and> e \<noteq> CairoRenderError \<and>
                  (py_int (width self) = Inl e \<or> py_int (height self) = Inl e))))"
    by (cases r0)
       (auto simp: tobytes_def Let_def acquired_append released_append released_cleanup
          acquired_cleanup acquired_Cons released_Cons acquired_Nil released_Nil
          split: prod.splits)
  then show ?thesis by blast
qed

lemma stride_trace:
  assumes "stride find_svg lib self = (r, t)"
  shows "\<exists>dh cx sf. acquired t = held dh cx sf \<and>
           (case r of
              Inl e \<Rightarrow>
                released t = rev (acquired t) \<or>
                (released t = [] \<and> e \<noteq> CairoRenderError \<and>
                 (py_int (width self) = Inl e \<or> py_int (height self) = Inl e))
            | Inr v \<Rightarrow> released t = [] \<and> dh \<noteq> 0)"
proof -
  obtain r0 t0 where l: "render find_svg lib self = (r0, t0)"
    by (cases "render find_svg lib self")
  from render_trace [OF l] obtain dh cx sf where
    a: "acquired t0 = held dh cx sf" and
    b: "case r0 of
          Inl e \<Rightarrow>
            released t0 = rev (acquired t0) \<or>
            (released t0 = [] \<and> e \<noteq> CairoRenderError \<and>
             (py_int (width self) = Inl e \<or> py_int (height self) = Inl e))
        | Inr trip \<Rightarrow> trip = (dh, cx, sf) \<and> released t0 = [] \<and> dh \<noteq> 0"
    by blast
  from l a b assms
  have "acquired t = held dh cx sf \<and>
           (case r of
              Inl e \<Rightarrow>
                released t = rev (acquired t) \<or>
                (released t = [] \<and> e \<noteq> CairoRenderError \<and>
                 (py_int (width self) = Inl e \<or> py_int (height self) = Inl e))
            | Inr v \<Rightarrow> released t = [] \<and> dh \<noteq> 0)"
    by (cases r0)
       (auto simp: stride_def Let_def acquired_append released_append
          acquired_single released_single)
  then show ?thesis by blast
qed



lemma subseq_rev_held:
  "subseq (rev (held dh cx sf)) [Drawing_context cx, Pixel_surface sf, Document_handle dh]"
  by (simp add: held_def)

lemma py_int_errors: "py_int x = Inl e \<Longrightarrow> e = OverflowError \<or> e = ValueError"
  by (cases x) auto

lemma render_never_format_error:
  "fst (render find_svg lib self) \<noteq> Inl SurfaceXmlRenderingFormatError"
  by (auto simp: render_def render_load_def XmlGraphic_init_def XmlGraphic_render_def Let_def
           split: source.splits sum.splits option.splits prod.splits if_splits
           dest: py_int_errors)

lemma subseq_released:
  assumes "released t = [] \<or> released t = rev (held dh cx sf)"
  shows "\<exists>dh cx sf. subseq (released t)
           [Drawing_context cx, Pixel_surface sf, Document_handle dh]"
  using assms
proof
  assume "released t = []"
  then show ?thesis by simp
next
  assume "released t = rev (held dh cx sf)"
  with subseq_rev_held [of dh cx sf] show ?thesis by metis
qed

section \<open>Example runs\<close>

lemma save_example:
  "save example_find_svg example_lib example_surface =
     (Inr (),
      [Rsvg_handle_new_from_file ''in.svg'' 11,
       Cairo_image_surface_create 1 100 50 21,
       Cairo_create 21 31,
       Rsvg_handle_render_cairo 11 31 1,
       Cairo_surface_write_to_png 21 ''out.png'' 0,
       Cairo_destroy 31, Cairo_surface_destroy 21, Rsvg_handle_close 11])"
  by (simp add: example_defs run_defs)




text \<open>
  With an infinite width \<^verbatim>\<open>int(self.width)\<close> raises after the document has been loaded,
  and \<^verbatim>\<open>_render\<close> is left without a release: the handle stays allocated. This failure
  is none of load, render and PNG encoding.
\<close>

lemma infinite_width_leaks_handle:
  "save example_find_svg example_lib example_surface_inf =
     (Inl OverflowError, [Rsvg_handle_new_from_file ''in.svg'' 11]) \<and>
   acquired (snd (save example_find_svg example_lib example_surface_inf)) = [Document_handle 11] \<and>
   released (snd (save example_find_svg example_lib example_surface_inf)) = []"
  by (simp add: example_defs run_defs acquired_def released_def)

lemma py_float_long_numeral: "py_float long_numeral = Inr PInf"
proof -
  have tw: "takeWhile (\<lambda>c. c \<noteq> CHR ''.'') long_numeral = long_numeral"
    by (simp add: long_numeral_def)
  have dr: "drop (Suc (length long_numeral)) long_numeral = []"
    by simp
  have dv: "digits_value 0 long_numeral = Some (10 ^ 309)"
    by (simp add: long_numeral_def is_digit_def)
  have ne: "long_numeral \<noteq> []"
    by (simp add: long_numeral_def)
  have rd: "round_double (of_nat (10 ^ 309)) = PInf"
    by (rule round_double_overflow) simp
  show ?thesis
    unfolding py_float_def Let_def tw dr
    using ne dv rd by simp
qed

text \<open>A width of 310 digits in the file is such a size.\<close>

lemma long_width_is_infinite:
  "get_svg_dimensions (fs_with ''a.svg'' long_width_document) (Path ''a.svg'') None None
     = Inr (PInf, Finite 50)"
proof -
  have w: "re_search width_re long_width_document = Some [long_numeral]"
    by (simp add: regex_defs long_width_document_def long_numeral_def)
  have h: "re_search height_re long_width_document = Some [''50'']"
    by (simp add: regex_defs long_width_document_def long_numeral_def)
  have f: "float_groups [long_numeral] 1 [''50''] 1 = Inr (PInf, Finite 50)"
    by (simp add: float_groups_def group_def py_float_long_numeral)
       (simp add: py_float_def is_digit_def round_double_numeral)
  from w h f show ?thesis
    by (simp add: get_svg_dimensions_def open_read_def fs_with_def)
qed

section \<open>Dimension resolution\<close>

text \<open>
  C5. When both an explicit width and an explicit height are given,
  \<^verbatim>\<open>_get_svg_dimensions\<close> returns exactly these two values. The result is the same for
  every file system and every source, also for one on which every read fails: the
  document is neither read nor compared with the values.
\<close>

theorem explicit_size_returned_unchanged:
  "get_svg_dimensions fs src (Some x) (Some y) = Inr (x, y)"
  by (simp add: get_svg_dimensions_def)

theorem explicit_size_returned_unchanged_witness:
  "get_svg_dimensions (\<lambda>p. Inl IOError) NoSource (Some (Finite 640)) (Some (Finite (957 / 2)))
     = Inr (Finite 640, Finite (957 / 2))"
  using explicit_size_returned_unchanged
          [of "\<lambda>p. Inl IOError" NoSource "Finite 640" "Finite (957 / 2)"]
  by simp

text \<open>
  C9. When exactly one of width and height is given, the given value plays no part:
  the result is the one obtained with neither given, so both dimensions come from the
  document, and the request fails whenever the request without any explicit dimension
  fails.
\<close>

theorem single_explicit_dimension_discarded:
  "get_svg_dimensions fs src (Some x) None = get_svg_dimensions fs src None None \<and>
   get_svg_dimensions fs src None (Some y) = get_svg_dimensions fs src None None"
  by (simp add: get_svg_dimensions_def)

theorem single_explicit_dimension_discarded_witness:
  \<open>get_svg_dimensions (fs_with ''v.svg'' ''<svg viewBox="0 0 200 80"></svg>'')
      (Path ''v.svg'') (Some (Finite 300)) None = Inr (Finite 200, Finite 80) \<and>
    get_svg_dimensions (fs_with ''e.svg'' ''<svg></svg>'')
      (Path ''e.svg'') None (Some (Finite 300)) = Inl SVGParseError\<close>
proof -
  have a: \<open>get_svg_dimensions (fs_with ''v.svg'' ''<svg viewBox="0 0 200 80"></svg>'')
             (Path ''v.svg'') None None = Inr (Finite 200, Finite 80)\<close>
    by (simp add: get_svg_dimensions_def open_read_def fs_with_def regex_defs float_defs)
  have b: \<open>get_svg_dimensions (fs_with ''e.svg'' ''<svg></svg>'')
             (Path ''e.svg'') None None = Inl SVGParseError\<close>
    by (simp add: get_svg_dimensions_def open_read_def fs_with_def regex_defs)
  from a b
    single_explicit_dimension_discarded
      [of \<open>fs_with ''v.svg'' ''<svg viewBox="0 0 200 80"></svg>''\<close> "Path ''v.svg''"
          "Finite 300" "Finite 300"]
    single_explicit_dimension_discarded
      [of \<open>fs_with ''e.svg'' ''<svg></svg>''\<close> "Path ''e.svg''" "Finite 300" "Finite 300"]
  show ?thesis by simp
qed

text \<open>Bare numbers in the \<^verbatim>\<open>width\<close> and \<^verbatim>\<open>height\<close> attributes are found and returned.\<close>

lemma bare_width_height_example:
  \<open>get_svg_dimensions (fs_with ''a.svg'' ''<svg width="100" height="50"></svg>'')
      (Path ''a.svg'') None None = Inr (Finite 100, Finite 50)\<close>
  by (simp add: get_svg_dimensions_def open_read_def fs_with_def regex_defs float_defs)

text \<open>
  C3. The pattern for the \<^verbatim>\<open>width\<close> attribute wants the closing quote right after the
  digits, so \<^verbatim>\<open>width="100px"\<close> is not a match: no unit suffix is stripped here, as
  \<^verbatim>\<open>XmlGraphic.size\<close> does for an embedded document. For the file
  \<^verbatim>\<open><svg width="100px" height="50px"></svg>\<close> and no explicit size, the resolution
  raises \<^verbatim>\<open>SVGParseError\<close> where \<open>(100.0, 50.0)\<close> is expected.
\<close>

theorem px_suffix_not_stripped:
  \<open>get_svg_dimensions (fs_with ''a.svg'' ''<svg width="100px" height="50px"></svg>'')
      (Path ''a.svg'') None None = Inl SVGParseError \<and>
    get_svg_dimensions (fs_with ''a.svg'' ''<svg width="100px" height="50px"></svg>'')
      (Path ''a.svg'') None None \<noteq> Inr (Finite 100, Finite 50)\<close>
  by (simp add: get_svg_dimensions_def open_read_def fs_with_def regex_defs)







section \<open>Construction\<close>

text \<open>
  For a file-path source the constructor rejects a destination that is given, not
  empty and does not end in \<^verbatim>\<open>.png\<close>, whatever the file system holds and whether or not
  the libraries load.
\<close>

lemma path_source_checks_destination:
  assumes "d \<noteq> []" and "\<not> endswith d ''.png''"
  shows "SvgImageSurface_init fs load_libraries (Path p) (Some d) bg wd ht
           = Inl InvalidFileExtensionError"
  using assms by (simp add: SvgImageSurface_init_def)

text \<open>
  C4. The test of the destination sits inside \<^verbatim>\<open>if isinstance(self.from_file, str)\<close>,
  so with an \<^verbatim>\<open>XmlGraphic\<close> source it does not run: the constructor accepts the
  destination \<^verbatim>\<open>out.jpg\<close>, and \<^verbatim>\<open>_save\<close> then has cairo write the PNG to that path.
\<close>

theorem embedded_source_skips_destination_check:
  "SvgImageSurface_init (\<lambda>p. Inl IOError) None (Graphic example_graphic) (Some ''out.jpg'')
      True (Some (Finite 10)) (Some (Finite 10))
     = Inr \<lparr>save_bg = True, from_file = Graphic example_graphic, to_file = Some ''out.jpg'',
            width = Finite 10, height = Finite 10\<rparr> \<and>
   save example_find_svg example_lib
      \<lparr>save_bg = True, from_file = Graphic example_graphic, to_file = Some ''out.jpg'',
       width = Finite 10, height = Finite 10\<rparr>
     = (Inr (),
        [Rsvg_handle_new_from_data (xml example_graphic) 33 12,
         Cairo_image_surface_create 1 10 10 21,
         Cairo_create 21 31,
         Rsvg_handle_render_cairo 12 31 1,
         Cairo_surface_write_to_png 21 ''out.jpg'' 0,
         Cairo_destroy 31, Cairo_surface_destroy 21, Rsvg_handle_close 12])"
  by (simp add: SvgImageSurface_init_def get_svg_dimensions_def example_defs run_defs)

text \<open>
  C10. Building an \<^verbatim>\<open>XmlGraphic\<close> from bytes in which no \<^verbatim>\<open>svg\<close> element is found
  raises \<^verbatim>\<open>AttributeError\<close> in the constructor. An \<^verbatim>\<open>XmlGraphic\<close> that the constructor
  did return has an \<^verbatim>\<open>svg\<close> element, and rendering it never raises
  \<^verbatim>\<open>SurfaceXmlRenderingFormatError\<close>, neither in \<^verbatim>\<open>_render\<close> itself nor through
  \<^verbatim>\<open>_save\<close>, \<^verbatim>\<open>_tobytes\<close> or \<^verbatim>\<open>_stride\<close>.
\<close>

theorem missing_root_fails_in_constructor:
  "(find_svg b = None \<longrightarrow> XmlGraphic_init find_svg b = Inl AttributeError) \<and>
   (XmlGraphic_init find_svg b' = Inr g \<longrightarrow>
      find_svg (xml g) \<noteq> None \<and>
      fst (render find_svg lib (self\<lparr>from_file := Graphic g\<rparr>))
        \<noteq> Inl SurfaceXmlRenderingFormatError \<and>
      fst (save find_svg lib (self\<lparr>from_file := Graphic g\<rparr>))
        \<noteq> Inl SurfaceXmlRenderingFormatError \<and>
      fst (tobytes find_svg lib (self\<lparr>from_file := Graphic g\<rparr>))
        \<noteq> Inl SurfaceXmlRenderingFormatError \<and>
      fst (stride find_svg lib (self\<lparr>from_file := Graphic g\<rparr>))
        \<noteq> Inl SurfaceXmlRenderingFormatError)"
proof (intro conjI impI)
  assume "find_svg b = None"
  then show "XmlGraphic_init find_svg b = Inl AttributeError"
    by (simp add: XmlGraphic_init_def)
next
  assume "XmlGraphic_init find_svg b' = Inr g"
  then show "find_svg (xml g) \<noteq> None"
    by (auto simp: XmlGraphic_init_def split: option.splits)
next
  show "fst (render find_svg lib (self\<lparr>from_file := Graphic g\<rparr>))
        \<noteq> Inl SurfaceXmlRenderingFormatError"
    by (rule render_never_format_error)
next
  show "fst (save find_svg lib (self\<lparr>from_file := Graphic g\<rparr>))
        \<noteq> Inl SurfaceXmlRenderingFormatError"
    using render_never_format_error [of find_svg lib "self\<lparr>from_file := Graphic g\<rparr>"]
    by (auto simp: save_def Let_def split: prod.splits sum.splits)
next
  show "fst (tobytes find_svg lib (self\<lparr>from_file := Graphic g\<rparr>))
        \<noteq> Inl SurfaceXmlRenderingFormatError"
    using render_never_format_error [of find_svg lib "self\<lparr>from_file := Graphic g\<rparr>"]
    by (auto simp: tobytes_def Let_def split: prod.splits sum.splits)
next
  show "fst (stride find_svg lib (self\<lparr>from_file := Graphic g\<rparr>))
        \<noteq> Inl SurfaceXmlRenderingFormatError"
    using render_never_format_error [of find_svg lib "self\<lparr>from_file := Graphic g\<rparr>"]
    by (auto simp: stride_def Let_def split: prod.splits sum.splits)
qed

theorem missing_root_fails_in_constructor_witness:
  "example_find_svg ''<html/>'' = None \<and>
   XmlGraphic_init example_find_svg ''<html/>'' = Inl AttributeError \<and>
   XmlGraphic_init example_find_svg (xml example_graphic) = Inr example_graphic \<and>
   fst (render example_find_svg example_lib (example_surface\<lparr>from_file := Graphic example_graphic\<rparr>))
     \<noteq> Inl SurfaceXmlRenderingFormatError"
proof -
  have a: "example_find_svg ''<html/>'' = None"
    by (simp add: example_find_svg_def)
  have b: "XmlGraphic_init example_find_svg (xml example_graphic) = Inr example_graphic"
    by (simp add: example_defs XmlGraphic_init_def)
  from missing_root_fails_in_constructor
         [of example_find_svg "''<html/>''" "xml example_graphic" example_graphic
             example_lib example_surface] a b
  show ?thesis by blast
qed

section \<open>Release of native resources\<close>

text \<open>
  When both \<^verbatim>\<open>int\<close> conversions of \<^verbatim>\<open>_render\<close> succeed, a call that raises, whatever the
  error, has released each resource it acquired exactly once.
\<close>

lemma failure_with_finite_size_releases:
  assumes "py_int (width self) = Inr x" and "py_int (height self) = Inr y"
  shows "(fst (save find_svg lib self) = Inl e1 \<longrightarrow>
            released (snd (save find_svg lib self))
              = rev (acquired (snd (save find_svg lib self)))) \<and>
         (fst (tobytes find_svg lib self) = Inl e2 \<longrightarrow>
            released (snd (tobytes find_svg lib self))
              = rev (acquired (snd (tobytes find_svg lib self)))) \<and>
         (fst (stride find_svg lib self) = Inl e3 \<longrightarrow>
            released (snd (stride find_svg lib self))
              = rev (acquired (snd (stride find_svg lib self))))"
proof (intro conjI impI)
  obtain r t where s: "save find_svg lib self = (r, t)" by (cases "save find_svg lib self")
  from save_trace [OF s] assms s
  show "released (snd (save find_svg lib self)) = rev (acquired (snd (save find_svg lib self)))"
    by auto
next
  obtain r t where s: "tobytes find_svg lib self = (r, t)" by (cases "tobytes find_svg lib self")
  from tobytes_trace [OF s] assms s
  show "released (snd (tobytes find_svg lib self)) = rev (acquired (snd (tobytes find_svg lib self)))"
    by auto
next
  assume f: "fst (stride find_svg lib self) = Inl e3"
  obtain r t where s: "stride find_svg lib self = (r, t)" by (cases "stride find_svg lib self")
  with f have "r = Inl e3" by simp
  with stride_trace [OF s] assms s
  show "released (snd (stride find_svg lib self)) = rev (acquired (snd (stride find_svg lib self)))"
    by auto
qed



text \<open>
  C8. In every call of \<^verbatim>\<open>_save\<close>, \<^verbatim>\<open>_tobytes\<close> and \<^verbatim>\<open>_stride\<close> the releases come in
  the order drawing context, pixel surface, document handle, and, when there are any,
  they are the acquisitions of the call in reverse.
\<close>

theorem release_order_reverses_acquisition:
  "(\<exists>dh cx sf. subseq (released (snd (save find_svg lib self)))
                  [Drawing_context cx, Pixel_surface sf, Document_handle dh]) \<and>
   (released (snd (save find_svg lib self)) = [] \<or>
    released (snd (save find_svg lib self)) = rev (acquired (snd (save find_svg lib self)))) \<and>
   (\<exists>dh cx sf. subseq (released (snd (tobytes find_svg lib self)))
                  [Drawing_context cx, Pixel_surface sf, Document_handle dh]) \<and>
   (released (snd (tobytes find_svg lib self)) = [] \<or>
    released (snd (tobytes find_svg lib self)) = rev (acquired (snd (tobytes find_svg lib self)))) \<and>
   (\<exists>dh cx sf. subseq (released (snd (stride find_svg lib self)))
                  [Drawing_context cx, Pixel_surface sf, Document_handle dh]) \<and>
   (released (snd (stride find_svg lib self)) = [] \<or>
    released (snd (stride find_svg lib self)) = rev (acquired (snd (stride find_svg lib self))))"
proof -
  obtain x1 t1 where s1: "save find_svg lib self = (x1, t1)" by (cases "save find_svg lib self")
  obtain x2 t2 where s2: "tobytes find_svg lib self = (x2, t2)" by (cases "tobytes find_svg lib self")
  obtain x3 t3 where s3: "stride find_svg lib self = (x3, t3)" by (cases "stride find_svg lib self")
  from save_trace [OF s1] obtain d1 c1 f1
    where a1: "acquired t1 = held d1 c1 f1" "released t1 = [] \<or> released t1 = rev (acquired t1)"
    by blast
  from tobytes_trace [OF s2] obtain d2 c2 f2
    where a2: "acquired t2 = held d2 c2 f2" "released t2 = [] \<or> released t2 = rev (acquired t2)"
    by blast
  from stride_trace [OF s3] obtain d3 c3 f3
    where a3: "acquired t3 = held d3 c3 f3" "released t3 = [] \<or> released t3 = rev (acquired t3)"
    by (cases x3) auto
  have p1: "\<exists>dh cx sf. subseq (released t1) [Drawing_context cx, Pixel_surface sf, Document_handle dh]"
    using a1 subseq_released [of t1 d1 c1 f1] by simp
  have p2: "\<exists>dh cx sf. subseq (released t2) [Drawing_context cx, Pixel_surface sf, Document_handle dh]"
    using a2 subseq_released [of t2 d2 c2 f2] by simp
  have p3: "\<exists>dh cx sf. subseq (released t3) [Drawing_context cx, Pixel_surface sf, Document_handle dh]"
    using a3 subseq_released [of t3 d3 c3 f3] by simp
  from p1 p2 p3 a1 a2 a3 s1 s2 s3 show ?thesis by simp
qed

theorem release_order_reverses_acquisition_witness:
  "acquired (snd (save example_find_svg example_lib example_surface))
     = [Document_handle 11, Pixel_surface 21, Drawing_context 31] \<and>
   released (snd (save example_find_svg example_lib example_surface))
     = [Drawing_context 31, Pixel_surface 21, Document_handle 11]"
proof -
  have a: "acquired (snd (save example_find_svg example_lib example_surface))
             = [Document_handle 11, Pixel_surface 21, Drawing_context 31]"
    by (simp add: save_example acquired_def)
  have b: "released (snd (save example_find_svg example_lib example_surface)) \<noteq> []"
    by (simp add: save_example released_def)
  from a b release_order_reverses_acquisition [of example_find_svg example_lib example_surface]
  show ?thesis by simp
qed

text \<open>A call of \<^verbatim>\<open>_stride\<close> that returns a stride has released nothing.\<close>

lemma stride_success_releases_nothing:
  assumes "fst (stride find_svg lib self) = Inr v"
  shows "released (snd (stride find_svg lib self)) = [] \<and>
         acquired (snd (stride find_svg lib self)) \<noteq> []"
proof -
  obtain x t where s: "stride find_svg lib self = (x, t)"
    by (cases "stride find_svg lib self")
  with assms have x: "x = Inr v" by simp
  from stride_trace [OF s] x obtain dh cx sf
    where "acquired t = held dh cx sf" "released t = []" "dh \<noteq> 0" by auto
  with s show ?thesis by (simp add: held_def)
qed

text \<open>
  C2. \<^verbatim>\<open>_stride\<close> renders and reads the stride, and returns without a call of
  \<^verbatim>\<open>_cleanup_resources\<close>: whenever it returns a stride, the document handle it loaded
  is still held and nothing has been released.
\<close>

theorem stride_leaves_resources_held:
  "stride example_find_svg example_lib example_surface =
     (Inr 400,
      [Rsvg_handle_new_from_file ''in.svg'' 11,
       Cairo_image_surface_create 1 100 50 21,
       Cairo_create 21 31,
       Rsvg_handle_render_cairo 11 31 1,
       Cairo_image_surface_get_stride 21 400]) \<and>
   acquired (snd (stride example_find_svg example_lib example_surface))
     = [Document_handle 11, Pixel_surface 21, Drawing_context 31] \<and>
   released (snd (stride example_find_svg example_lib example_surface)) = []"
  by (simp add: example_defs run_defs acquired_def released_def)

end
